theory Spec2Isabelle
  imports Main "HOL-Library.Sublist" "HOL-Library.AList"
begin

section \<open>The edge proxy of frontend/server.js\<close>

text \<open>
  The file registers one generic forwarder (\<open>proxyToBackend\<close>), four older handlers for
  \<open>/chats\<close> and \<open>/chats/:id\<close>, and a health check on an Express application. The
  handlers are modelled at the level of the calls they make: the request they hand to
  \<open>fetch\<close>, and the status, headers and body they hand to Express through
  \<open>res.status\<close>, \<open>res.set\<close>, \<open>res.send\<close> and \<open>res.json\<close>. What Express and
  node-fetch do below these calls (default headers, ETag and conditional requests, the
  charset appended to a content type, redirects) is not part of the file and is not
  modelled.
\<close>

subsection \<open>JavaScript values and errors\<close>

text \<open>
  Numbers are IEEE doubles; no handler computes with one, so their type is left abstract.
  An object is the list of its properties in insertion order.
\<close>

typedecl js_number

datatype js_value =
    JUndefined
  | JNull
  | JBool bool
  | JNumber js_number
  | JString string
  | JArray "js_value list"
  | JObject "(string \<times> js_value) list"

text \<open>A thrown value: the message of the error that \<open>catch (err)\<close> binds.\<close>

datatype js_error = JsError string

subsection \<open>Requests and responses\<close>

text \<open>
  The inbound request as the handlers read it: \<open>req.method\<close>, \<open>req.originalUrl\<close> (path
  and query string as received), the header set, \<open>req.body\<close> as \<open>express.json()\<close> left
  it, and \<open>req.params\<close> as the router bound them.
\<close>

record request =
  req_method :: string
  originalUrl :: string
  req_headers :: "(string \<times> string) list"
  req_body :: js_value
  params :: "(string \<times> string) list"

text \<open>
  The arguments of one \<open>fetch(url, options)\<close> call. A missing \<open>method\<close> option is
  \<open>GET\<close>, a missing \<open>headers\<close> option is the empty list, and \<open>body: undefined\<close> is
  \<open>None\<close>.
\<close>

record fetch_request =
  url :: string
  fetch_method :: string
  fetch_headers :: "(string \<times> string) list"
  fetch_body :: "string option"

text \<open>
  What \<open>fetch\<close> resolves to: \<open>response.status\<close>, the value of
  \<open>response.headers.get("content-type")\<close> (\<open>None\<close> for \<open>null\<close>, when the header is
  absent), and the outcome of \<open>await response.text()\<close>, which can still throw while the
  body is read.
\<close>

record backend_response =
  status :: nat
  content_type :: "string option"
  body_text :: "js_error + string"

text \<open>
  The response object \<open>res\<close>: the status code, the headers set through \<open>res.set\<close> (or by
  \<open>res.json\<close>), and the body handed to \<open>res.send\<close>. A fresh \<open>res\<close> has status 200.
\<close>

record response =
  statusCode :: nat
  headers :: "(string \<times> string) list"
  body :: "string option"

definition fresh_res :: response where
  "fresh_res = \<lparr>statusCode = 200, headers = [], body = None\<rparr>"

text \<open>A handler is called as \<open>handler(req, res)\<close> and changes \<open>res\<close> in place: the model
  takes the \<open>res\<close> it is given and returns the changed one.\<close>

subsection \<open>The runtime the handlers call into\<close>

text \<open>
  The handlers use four things they do not define: the environment variable
  \<open>BACKEND_URL\<close>, \<open>fetch\<close> (the backend and the network behind it), \<open>JSON.stringify\<close>
  (\<open>None\<close> for \<open>undefined\<close>) and \<open>JSON.parse\<close>. They are parameters of the model.
\<close>

record runtime =
  env_BACKEND_URL :: "string option"
  fetch :: "fetch_request \<Rightarrow> js_error + backend_response"
  JSON_stringify :: "js_value \<Rightarrow> string option"
  JSON_parse :: "string \<Rightarrow> js_error + js_value"

text \<open>\<open>process.env.BACKEND_URL || "http://localhost:8080"\<close>: unset and empty are falsy.\<close>

definition BACKEND_URL :: "runtime \<Rightarrow> string" where
  "BACKEND_URL rt =
     (case env_BACKEND_URL rt of
        None \<Rightarrow> ''http://localhost:8080''
      | Some s \<Rightarrow> if s = [] then ''http://localhost:8080'' else s)"

text \<open>What running a handler leaves behind: the fetch calls made, the lines written
  with \<open>console.error\<close>, and the response.\<close>

record outcome =
  calls :: "fetch_request list"
  logged :: "(string \<times> js_error) list"
  res :: response

subsection \<open>The calls on \<open>res\<close>\<close>

definition res_status :: "nat \<Rightarrow> response \<Rightarrow> response" where
  "res_status code r = r\<lparr>statusCode := code\<rparr>"

definition res_set :: "string \<Rightarrow> string \<Rightarrow> response \<Rightarrow> response" where
  "res_set field v r = r\<lparr>headers := AList.update field v (headers r)\<rparr>"

definition res_send :: "string option \<Rightarrow> response \<Rightarrow> response" where
  "res_send chunk r = r\<lparr>body := chunk\<rparr>"

text \<open>\<open>res.json(val)\<close> serialises the value, sets the content type unless one is set
  already, and sends the text.\<close>

definition res_json :: "runtime \<Rightarrow> js_value \<Rightarrow> response \<Rightarrow> response" where
  "res_json rt val r =
     res_send (JSON_stringify rt val)
       (case map_of (headers r) ''Content-Type'' of
          None \<Rightarrow> res_set ''Content-Type'' ''application/json'' r
        | Some _ \<Rightarrow> r)"

subsection \<open>The generic forwarder\<close>

definition METHODS_WITH_BODY :: "string set" where
  "METHODS_WITH_BODY = {''POST'', ''PUT'', ''PATCH'', ''DELETE''}"

text \<open>\<open>s.includes(sub)\<close>: \<open>sub\<close> occurs in \<open>s\<close> as a contiguous run, compared
  character by character.\<close>

fun str_includes :: "string \<Rightarrow> string \<Rightarrow> bool" where
  "str_includes [] sub = (sub = [])"
| "str_includes (c # cs) sub = (prefix sub (c # cs) \<or> str_includes cs sub)"

text \<open>The request that \<open>proxyToBackend\<close> passes to \<open>fetch\<close> (lines 15 to 20).\<close>

definition outbound :: "runtime \<Rightarrow> request \<Rightarrow> fetch_request" where
  "outbound rt req =
     \<lparr>url = BACKEND_URL rt @ originalUrl req,
      fetch_method = req_method req,
      fetch_headers = [(''Content-Type'', ''application/json'')],
      fetch_body =
        (if req_method req \<in> METHODS_WITH_BODY then JSON_stringify rt (req_body req)
         else None)\<rparr>"

text \<open>The \<open>catch\<close> block of \<open>proxyToBackend\<close> (lines 30 to 33).\<close>

definition proxy_failed ::
  "runtime \<Rightarrow> fetch_request \<Rightarrow> js_error \<Rightarrow> response \<Rightarrow> outcome" where
  "proxy_failed rt call err r =
     \<lparr>calls = [call],
      logged = [(''Error calling backend:'', err)],
      res = res_json rt (JObject [(''error'', JString ''Failed to connect to backend'')])
              (res_status 500 r)\<rparr>"

text \<open>The \<open>try\<close> block after both awaits have resolved (lines 23 to 29).\<close>

definition relay :: "backend_response \<Rightarrow> string \<Rightarrow> response \<Rightarrow> response" where
  "relay response t r =
     (let r1 = res_status (status response) r in
      if (case content_type response of
            None \<Rightarrow> False
          | Some ct \<Rightarrow> str_includes ct ''application/json'')
      then res_send (Some t) (res_set ''Content-Type'' ''application/json'' r1)
      else res_send (Some t) r1)"

text \<open>\<open>proxyToBackend\<close> (lines 13 to 34). Either await can throw; both land in the one
  \<open>catch\<close>, before anything was written to \<open>res\<close>.\<close>

definition proxyToBackend :: "runtime \<Rightarrow> request \<Rightarrow> response \<Rightarrow> outcome" where
  "proxyToBackend rt req r =
     (let call = outbound rt req in
      case fetch rt call of
        Inl err \<Rightarrow> proxy_failed rt call err r
      | Inr response \<Rightarrow>
          (case body_text response of
             Inl err \<Rightarrow> proxy_failed rt call err r
           | Inr t \<Rightarrow> \<lparr>calls = [call], logged = [], res = relay response t r\<rparr>))"

subsection \<open>The four older handlers and the health check\<close>

text \<open>\<open>await response.json()\<close>: read the body text, then parse it; either step can
  throw.\<close>

definition response_json :: "runtime \<Rightarrow> backend_response \<Rightarrow> js_error + js_value" where
  "response_json rt response =
     (case body_text response of
        Inl err \<Rightarrow> Inl err
      | Inr t \<Rightarrow> JSON_parse rt t)"

text \<open>
  The handlers of lines 41 to 87 have one shape and differ in the fetch call, the line
  they log and the error message they answer with: fetch, parse the body as JSON whatever
  its content type, and \<open>res.json(data)\<close> on the untouched \<open>res\<close>; in the \<open>catch\<close>, log
  and answer 500 with the handler's message.
\<close>

definition legacy ::
  "runtime \<Rightarrow> fetch_request \<Rightarrow> string \<Rightarrow> string \<Rightarrow> response \<Rightarrow> outcome" where
  "legacy rt call line msg r =
     (let failed = (\<lambda>err.
        \<lparr>calls = [call],
         logged = [(line, err)],
         res = res_json rt (JObject [(''error'', JString msg)]) (res_status 500 r)\<rparr>)
      in
      case fetch rt call of
        Inl err \<Rightarrow> failed err
      | Inr response \<Rightarrow>
          (case response_json rt response of
             Inl err \<Rightarrow> failed err
           | Inr data \<Rightarrow> \<lparr>calls = [call], logged = [], res = res_json rt data r\<rparr>))"

text \<open>\<open>req.params.id\<close> inside a template literal: a missing property prints as
  \<open>undefined\<close>.\<close>

definition params_id :: "request \<Rightarrow> string" where
  "params_id req = (case map_of (params req) ''id'' of None \<Rightarrow> ''undefined'' | Some v \<Rightarrow> v)"

definition get_chats :: "runtime \<Rightarrow> request \<Rightarrow> response \<Rightarrow> outcome" where
  "get_chats rt req r =
     legacy rt
       \<lparr>url = BACKEND_URL rt @ ''/chats'', fetch_method = ''GET'',
        fetch_headers = [], fetch_body = None\<rparr>
       ''Error fetching chats:'' ''Failed to fetch chats'' r"

definition get_chat :: "runtime \<Rightarrow> request \<Rightarrow> response \<Rightarrow> outcome" where
  "get_chat rt req r =
     legacy rt
       \<lparr>url = BACKEND_URL rt @ ''/chats/'' @ params_id req, fetch_method = ''GET'',
        fetch_headers = [], fetch_body = None\<rparr>
       ''Error fetching chat:'' ''Failed to fetch chat'' r"

definition delete_chat :: "runtime \<Rightarrow> request \<Rightarrow> response \<Rightarrow> outcome" where
  "delete_chat rt req r =
     legacy rt
       \<lparr>url = BACKEND_URL rt @ ''/chats/'' @ params_id req, fetch_method = ''DELETE'',
        fetch_headers = [], fetch_body = None\<rparr>
       ''Error deleting chat:'' ''Failed to delete chat'' r"

definition clear_chats :: "runtime \<Rightarrow> request \<Rightarrow> response \<Rightarrow> outcome" where
  "clear_chats rt req r =
     legacy rt
       \<lparr>url = BACKEND_URL rt @ ''/chats'', fetch_method = ''DELETE'',
        fetch_headers = [], fetch_body = None\<rparr>
       ''Error clearing chats:'' ''Failed to clear chats'' r"

text \<open>The health check (lines 89 to 91) calls nothing but \<open>res.json\<close>.\<close>

definition health :: "runtime \<Rightarrow> request \<Rightarrow> response \<Rightarrow> outcome" where
  "health rt req r =
     \<lparr>calls = [], logged = [], res = res_json rt (JObject [(''status'', JString ''ok'')]) r\<rparr>"

subsection \<open>Routing\<close>

text \<open>
  The handlers by name, and the registrations of lines 36 to 91 in the order of the
  source. Express tries the routes in that order and runs the first whose method and path
  match; no handler of this file calls \<open>next\<close>, so no later route runs.
\<close>

datatype handler =
    H_proxyToBackend
  | H_get_chats
  | H_get_chat
  | H_delete_chat
  | H_clear_chats
  | H_health

datatype registration = app_post | app_all | app_get | app_delete

type_synonym route = "registration \<times> string \<times> handler"

definition routes :: "route list" where
  "routes =
     [(app_post, ''/chat'', H_proxyToBackend),
      (app_all, ''/chats'', H_proxyToBackend),
      (app_all, ''/chats/:id'', H_proxyToBackend),
      (app_all, ''/stats'', H_proxyToBackend),
      (app_get, ''/chats'', H_get_chats),
      (app_get, ''/chats/:id'', H_get_chat),
      (app_delete, ''/chats/:id'', H_delete_chat),
      (app_delete, ''/chats'', H_clear_chats),
      (app_get, ''/health'', H_health)]"

text \<open>A route registered with \<open>app.get\<close> also answers \<open>HEAD\<close>.\<close>

fun handles_method :: "registration \<Rightarrow> string \<Rightarrow> bool" where
  "handles_method app_all m = True"
| "handles_method app_post m = (m = ''POST'')"
| "handles_method app_get m = (m = ''GET'' \<or> m = ''HEAD'')"
| "handles_method app_delete m = (m = ''DELETE'')"

text \<open>
  Path matching with Express's defaults, for patterns made of literal segments and
  \<open>:name\<close> segments: the path is the URL up to the query string, one trailing slash is
  optional, literals compare without regard to ASCII case, and a \<open>:name\<close> segment takes
  any non-empty segment. The bound segment is kept as it stands in the URL.
\<close>

definition path_of :: "string \<Rightarrow> string" where
  "path_of u = takeWhile (\<lambda>c. c \<noteq> CHR ''?'') u"

fun split_slash :: "string \<Rightarrow> string list" where
  "split_slash [] = [[]]"
| "split_slash (c # cs) =
     (if c = CHR ''/'' then [] # split_slash cs
      else (case split_slash cs of [] \<Rightarrow> [[c]] | s # ss \<Rightarrow> (c # s) # ss))"

definition lower_ascii :: "char \<Rightarrow> char" where
  "lower_ascii c =
     (case map_of (zip ''ABCDEFGHIJKLMNOPQRSTUVWXYZ'' ''abcdefghijklmnopqrstuvwxyz'') c of
        None \<Rightarrow> c
      | Some l \<Rightarrow> l)"

definition strip_slash :: "string \<Rightarrow> string" where
  "strip_slash p = (if 1 < length p \<and> last p = CHR ''/'' then butlast p else p)"

fun match_segments :: "string list \<Rightarrow> string list \<Rightarrow> (string \<times> string) list option" where
  "match_segments [] [] = Some []"
| "match_segments (p # ps) (x # xs) =
     (case p of
        c # name \<Rightarrow>
          (if c = CHR '':'' then
             (if x = [] then None
              else map_option (\<lambda>bs. (name, x) # bs) (match_segments ps xs))
           else if map lower_ascii p = map lower_ascii x then match_segments ps xs
           else None)
      | [] \<Rightarrow> (if x = [] then match_segments ps xs else None))"
| "match_segments _ _ = None"

definition path_match :: "string \<Rightarrow> string \<Rightarrow> (string \<times> string) list option" where
  "path_match pattern p = match_segments (split_slash pattern) (split_slash (strip_slash p))"

fun dispatch :: "route list \<Rightarrow> request \<Rightarrow> (handler \<times> (string \<times> string) list) option" where
  "dispatch [] req = None"
| "dispatch ((verb, pattern, h) # rs) req =
     (if handles_method verb (req_method req) then
        (case path_match pattern (path_of (originalUrl req)) of
           Some ps \<Rightarrow> Some (h, ps)
         | None \<Rightarrow> dispatch rs req)
      else dispatch rs req)"

fun run :: "handler \<Rightarrow> runtime \<Rightarrow> request \<Rightarrow> response \<Rightarrow> outcome" where
  "run H_proxyToBackend = proxyToBackend"
| "run H_get_chats = get_chats"
| "run H_get_chat = get_chat"
| "run H_delete_chat = delete_chat"
| "run H_clear_chats = clear_chats"
| "run H_health = health"

text \<open>The application over a route table: \<open>None\<close> when no route takes the request (it
  falls through to Express's own not-found answer).\<close>

definition app_with :: "route list \<Rightarrow> runtime \<Rightarrow> request \<Rightarrow> outcome option" where
  "app_with rs rt req =
     (case dispatch rs req of
        None \<Rightarrow> None
      | Some (h, ps) \<Rightarrow> Some (run h rt (req\<lparr>params := ps\<rparr>) fresh_res))"

definition app :: "runtime \<Rightarrow> request \<Rightarrow> outcome option" where
  "app = app_with routes"

fun is_legacy :: "handler \<Rightarrow> bool" where
  "is_legacy H_get_chats = True"
| "is_legacy H_get_chat = True"
| "is_legacy H_delete_chat = True"
| "is_legacy H_clear_chats = True"
| "is_legacy _ = False"

text \<open>The route table with the four older registrations taken out.\<close>

definition routes_without_legacy :: "route list" where
  "routes_without_legacy = filter (\<lambda>(verb, pattern, h). \<not> is_legacy h) routes"

subsection \<open>Example runtimes and requests\<close>

text \<open>A string between double quotes.\<close>

definition quoted :: "string \<Rightarrow> string" where
  "quoted s = CHR 0x22 # s @ [CHR 0x22]"

text \<open>
  Stand-ins for \<open>JSON.stringify\<close> and \<open>JSON.parse\<close> in the examples. The first is
  right on \<open>undefined\<close>, on the empty object and on an object with one string property
  that needs no escaping, and answers \<open>null\<close> on every other value; the second knows
  two texts and throws on every other one. The examples use them on the inputs they are
  right on only.
\<close>

fun stringify_example :: "js_value \<Rightarrow> string option" where
  "stringify_example JUndefined = None"
| "stringify_example (JObject []) = Some ''{}''"
| "stringify_example (JObject [(k, JString s)]) =
     Some (''{'' @ quoted k @ '':'' @ quoted s @ ''}'')"
| "stringify_example v = Some ''null''"

definition parse_example :: "string \<Rightarrow> js_error + js_value" where
  \<open>parse_example t =
     (case map_of
        [(''{}'', JObject []),
         (''{"detail":"Chat not found"}'', JObject [(''detail'', JString ''Chat not found'')])] t
      of None \<Rightarrow> Inl (JsError ''Unexpected token in JSON'')
       | Some v \<Rightarrow> Inr v)\<close>

text \<open>A runtime around a given backend, with the base URL of the specification's
  example.\<close>

definition runtime_example :: "(fetch_request \<Rightarrow> js_error + backend_response) \<Rightarrow> runtime" where
  "runtime_example f =
     \<lparr>env_BACKEND_URL = Some ''http://b:9'', fetch = f,
      JSON_stringify = stringify_example, JSON_parse = parse_example\<rparr>"

text \<open>Four backends: one that refuses the connection, one that answers 503 in plain
  text, one that answers 404 with a JSON body, one that answers 200 with an HTML page.\<close>

definition backend_down :: "fetch_request \<Rightarrow> js_error + backend_response" where
  "backend_down c = Inl (JsError ''connect ECONNREFUSED 127.0.0.1:9'')"

definition backend_overloaded :: "fetch_request \<Rightarrow> js_error + backend_response" where
  "backend_overloaded c =
     Inr \<lparr>status = 503, content_type = Some ''text/plain'', body_text = Inr ''overloaded''\<rparr>"

definition backend_not_found :: "fetch_request \<Rightarrow> js_error + backend_response" where
  \<open>backend_not_found c =
     Inr \<lparr>status = 404, content_type = Some ''application/json; charset=utf-8'',
          body_text = Inr ''{"detail":"Chat not found"}''\<rparr>\<close>

definition backend_html :: "fetch_request \<Rightarrow> js_error + backend_response" where
  "backend_html c =
     Inr \<lparr>status = 200, content_type = Some ''text/html'',
          body_text = Inr ''<h1>chats</h1>''\<rparr>"

text \<open>A request without headers whose body \<open>express.json()\<close> left as the empty
  object.\<close>

definition request_example :: "string \<Rightarrow> string \<Rightarrow> request" where
  "request_example m u =
     \<lparr>req_method = m, originalUrl = u, req_headers = [], req_body = JObject [], params = []\<rparr>"

text \<open>A response written by one \<open>res.status(code).json(v)\<close> on a fresh \<open>res\<close>.\<close>

abbreviation json_reply :: "runtime \<Rightarrow> nat \<Rightarrow> js_value \<Rightarrow> response" where
  "json_reply rt code v \<equiv>
     \<lparr>statusCode = code, headers = [(''Content-Type'', ''application/json'')],
      body = JSON_stringify rt v\<rparr>"

text \<open>A \<open>fetch(url)\<close> or \<open>fetch(url, {method})\<close> call: no headers, no body.\<close>

abbreviation bare_fetch :: "string \<Rightarrow> string \<Rightarrow> fetch_request" where
  "bare_fetch m u \<equiv> \<lparr>url = u, fetch_method = m, fetch_headers = [], fetch_body = None\<rparr>"

text \<open>
  The answer to expect from one of the older handlers, given its fetch call and its error
  message: 500 with the message when the fetch, the reading of the body or the parsing
  throws; otherwise 200 with the parsed value serialised again. Neither the status nor
  the content type of the backend's response is looked at.
\<close>

abbreviation legacy_answer :: "runtime \<Rightarrow> fetch_request \<Rightarrow> string \<Rightarrow> response" where
  "legacy_answer rt call msg \<equiv>
     (case fetch rt call of
        Inl err \<Rightarrow> json_reply rt 500 (JObject [(''error'', JString msg)])
      | Inr response \<Rightarrow>
          (case body_text response of
             Inl err \<Rightarrow> json_reply rt 500 (JObject [(''error'', JString msg)])
           | Inr t \<Rightarrow>
               (case JSON_parse rt t of
                  Inl err \<Rightarrow> json_reply rt 500 (JObject [(''error'', JString msg)])
                | Inr data \<Rightarrow> json_reply rt 200 data)))"

section \<open>Properties of the generic forwarder\<close>

lemmas res_defs = res_status_def res_set_def res_send_def res_json_def fresh_res_def

lemma str_includes_sublist: "str_includes s sub = sublist sub s"
  by (induction s) (simp_all add: sublist_Cons_right)

lemma calls_proxyToBackend: "calls (proxyToBackend rt req r) = [outbound rt req]"
  by (simp add: proxyToBackend_def proxy_failed_def Let_def split: sum.splits)

text \<open>
  C1. When the fetch and the reading of the body both succeed, the relayed status is the
  backend's status, whatever it is (a non-2xx status included), the body is relayed and
  nothing is logged as an error. When the fetch throws, or the reading of the body
  throws, the relayed status is 500, whatever was thrown.
\<close>

theorem relayed_status_is_backend_status:
  "(fetch rt (outbound rt req) = Inr response \<and> body_text response = Inr t \<longrightarrow>
      statusCode (res (proxyToBackend rt req r)) = status response
      \<and> body (res (proxyToBackend rt req r)) = Some t
      \<and> logged (proxyToBackend rt req r) = [])
   \<and> (fetch rt (outbound rt req) = Inl err
        \<or> (fetch rt (outbound rt req) = Inr response \<and> body_text response = Inl err) \<longrightarrow>
      statusCode (res (proxyToBackend rt req r)) = 500)"
  by (auto simp: proxyToBackend_def proxy_failed_def relay_def res_defs Let_def
      split: option.splits)

theorem relayed_status_is_backend_status_witness:
  "statusCode (res (proxyToBackend (runtime_example backend_overloaded)
      (request_example ''GET'' ''/stats'') fresh_res)) = 503
   \<and> body (res (proxyToBackend (runtime_example backend_overloaded)
      (request_example ''GET'' ''/stats'') fresh_res)) = Some ''overloaded''
   \<and> statusCode (res (proxyToBackend (runtime_example backend_down)
      (request_example ''DELETE'' ''/chats/7'') fresh_res)) = 500"
proof -
  let ?up = "runtime_example backend_overloaded" and ?down = "runtime_example backend_down"
  let ?get = "request_example ''GET'' ''/stats''"
  let ?del = "request_example ''DELETE'' ''/chats/7''"
  let ?resp = "\<lparr>status = 503, content_type = Some ''text/plain'',
      body_text = Inr ''overloaded''\<rparr>"
  have up: "fetch ?up (outbound ?up ?get) = Inr ?resp \<and> body_text ?resp = Inr ''overloaded''"
    by (simp add: runtime_example_def backend_overloaded_def)
  have down:
    "fetch ?down (outbound ?down ?del) = Inl (JsError ''connect ECONNREFUSED 127.0.0.1:9'')"
    by (simp add: runtime_example_def backend_down_def)
  from relayed_status_is_backend_status [where rt = "?up" and req = "?get"
      and response = "?resp" and t = "''overloaded''" and r = fresh_res] up
    relayed_status_is_backend_status [where rt = "?down" and req = "?del" and r = fresh_res
      and err = "JsError ''connect ECONNREFUSED 127.0.0.1:9''"] down
  show ?thesis by simp
qed

text \<open>
  C2. When the fetch throws, or the reading of the body throws, the forwarder answers
  with status 500 and the serialisation of the object \<open>{error: "Failed to connect to
  backend"}\<close>. On a fresh \<open>res\<close> the whole response is that status, the JSON content
  type set by \<open>res.json\<close> and that body: the thrown error occurs nowhere in it.
\<close>

theorem backend_failure_gives_fixed_500:
  assumes "fetch rt (outbound rt req) = Inl err
     \<or> (\<exists>response. fetch rt (outbound rt req) = Inr response \<and> body_text response = Inl err)"
  shows "statusCode (res (proxyToBackend rt req r)) = 500
     \<and> body (res (proxyToBackend rt req r)) =
         JSON_stringify rt (JObject [(''error'', JString ''Failed to connect to backend'')])
     \<and> res (proxyToBackend rt req fresh_res) =
         json_reply rt 500 (JObject [(''error'', JString ''Failed to connect to backend'')])"
  using assms
  by (auto simp: proxyToBackend_def proxy_failed_def res_defs Let_def split: option.splits)

theorem backend_failure_gives_fixed_500_witness:
  \<open>res (proxyToBackend (runtime_example backend_down)
      (request_example ''DELETE'' ''/chats/7'') fresh_res) =
    \<lparr>statusCode = 500, headers = [(''Content-Type'', ''application/json'')],
     body = Some ''{"error":"Failed to connect to backend"}''\<rparr>\<close>
proof -
  let ?down = "runtime_example backend_down"
  let ?del = "request_example ''DELETE'' ''/chats/7''"
  have down:
    "fetch ?down (outbound ?down ?del) = Inl (JsError ''connect ECONNREFUSED 127.0.0.1:9'')"
    by (simp add: runtime_example_def backend_down_def)
  have "JSON_stringify ?down (JObject [(''error'', JString ''Failed to connect to backend'')])
      = Some (''{'' @ quoted ''error'' @ '':'' @ quoted ''Failed to connect to backend'' @ ''}'')"
    by (simp add: runtime_example_def)
  with backend_failure_gives_fixed_500 [where rt = "?down" and req = "?del"
      and r = fresh_res and err = "JsError ''connect ECONNREFUSED 127.0.0.1:9''"] down
  show ?thesis by (simp add: quoted_def)
qed

text \<open>
  C3. The one fetch call of the generic forwarder carries the serialisation of the
  inbound body when the method is POST, PUT, PATCH or DELETE, and no body for every other
  method.
\<close>

theorem outbound_body_by_method:
  "(req_method req \<in> {''POST'', ''PUT'', ''PATCH'', ''DELETE''} \<longrightarrow>
      map fetch_body (calls (proxyToBackend rt req r)) = [JSON_stringify rt (req_body req)])
   \<and> (req_method req \<notin> {''POST'', ''PUT'', ''PATCH'', ''DELETE''} \<longrightarrow>
      map fetch_body (calls (proxyToBackend rt req r)) = [None])"
  by (simp add: calls_proxyToBackend outbound_def METHODS_WITH_BODY_def)

theorem outbound_body_by_method_witness:
  "map fetch_body (calls (proxyToBackend (runtime_example backend_overloaded)
      (request_example ''POST'' ''/chat'') fresh_res)) = [Some ''{}'']
   \<and> map fetch_body (calls (proxyToBackend (runtime_example backend_overloaded)
      (request_example ''GET'' ''/stats'') fresh_res)) = [None]"
  using outbound_body_by_method [of "request_example ''POST'' ''/chat''"
      "runtime_example backend_overloaded" fresh_res]
    outbound_body_by_method [of "request_example ''GET'' ''/stats''"
      "runtime_example backend_overloaded" fresh_res]
  by (simp add: request_example_def runtime_example_def)

text \<open>
  C4. For a backend response whose body was read: when its content type contains
  \<open>application/json\<close> as a substring, the relayed response has the content type
  \<open>application/json\<close> and the backend's body text as it is; otherwise (another content
  type, or none) the forwarder sets no header and relays the body text as it is. The text
  is never parsed, so malformed JSON goes through unchanged.
\<close>

theorem content_type_and_body_relayed:
  assumes "fetch rt (outbound rt req) = Inr response" and "body_text response = Inr t"
  shows "((\<exists>ct. content_type response = Some ct \<and> sublist ''application/json'' ct) \<longrightarrow>
            map_of (headers (res (proxyToBackend rt req r))) ''Content-Type''
              = Some ''application/json''
            \<and> body (res (proxyToBackend rt req r)) = Some t)
       \<and> (\<not> (\<exists>ct. content_type response = Some ct \<and> sublist ''application/json'' ct) \<longrightarrow>
            headers (res (proxyToBackend rt req r)) = headers r
            \<and> body (res (proxyToBackend rt req r)) = Some t)"
  using assms
  by (auto simp: proxyToBackend_def relay_def res_defs Let_def str_includes_sublist
        update_Some_unfold
      split: option.splits)

theorem content_type_and_body_relayed_witness:
  \<open>res (proxyToBackend (runtime_example backend_not_found)
      (request_example ''GET'' ''/chats/42'') fresh_res) =
     \<lparr>statusCode = 404, headers = [(''Content-Type'', ''application/json'')],
      body = Some ''{"detail":"Chat not found"}''\<rparr>
   \<and> res (proxyToBackend (runtime_example backend_overloaded)
      (request_example ''GET'' ''/stats'') fresh_res) =
     \<lparr>statusCode = 503, headers = [], body = Some ''overloaded''\<rparr>\<close>
proof -
  let ?nf = "runtime_example backend_not_found" and ?up = "runtime_example backend_overloaded"
  let ?chat = "request_example ''GET'' ''/chats/42''"
  let ?stats = "request_example ''GET'' ''/stats''"
  let ?resp1 = "\<lparr>status = 404, content_type = Some ''application/json; charset=utf-8'',
      body_text = Inr (''{'' @ quoted ''detail'' @ '':'' @ quoted ''Chat not found'' @ ''}'')\<rparr>"
  let ?resp2 = "\<lparr>status = 503, content_type = Some ''text/plain'',
      body_text = Inr ''overloaded''\<rparr>"
  have nf: "fetch ?nf (outbound ?nf ?chat) = Inr ?resp1"
    "body_text ?resp1 = Inr (''{'' @ quoted ''detail'' @ '':'' @ quoted ''Chat not found'' @ ''}'')"
    by (simp_all add: runtime_example_def backend_not_found_def quoted_def)
  have up: "fetch ?up (outbound ?up ?stats) = Inr ?resp2" "body_text ?resp2 = Inr ''overloaded''"
    by (simp_all add: runtime_example_def backend_overloaded_def)
  have in1: "sublist ''application/json'' ''application/json; charset=utf-8''"
    by (simp add: str_includes_sublist [symmetric])
  have in2: "\<not> sublist ''application/json'' ''text/plain''"
    by (simp add: str_includes_sublist [symmetric])
  have st: "statusCode (res (proxyToBackend ?nf ?chat fresh_res)) = 404"
    "statusCode (res (proxyToBackend ?up ?stats fresh_res)) = 503"
    using nf up by (simp_all add: proxyToBackend_def relay_def res_defs Let_def)
  have hs: "headers (res (proxyToBackend ?nf ?chat fresh_res))
      = [(''Content-Type'', ''application/json'')]"
    using nf in1 by (simp add: proxyToBackend_def relay_def res_defs Let_def str_includes_sublist)
  from content_type_and_body_relayed [OF nf, of fresh_res]
    content_type_and_body_relayed [OF up, of fresh_res] in1 in2 st hs
  show ?thesis
    by (simp add: fresh_res_def quoted_def response.equality)
qed

text \<open>
  C5. The URL that the generic forwarder fetches is the backend base URL followed by the
  request's original path and query string, character for character: nothing is
  rewritten or normalised.
\<close>

theorem target_url_is_concatenation:
  "map url (calls (proxyToBackend rt req r)) = [BACKEND_URL rt @ originalUrl req]"
  by (simp add: calls_proxyToBackend outbound_def)

text \<open>With the base \<open>http://b:9\<close> and the request \<open>/chats/42?x=1\<close> the URL is
  \<open>http://b:9/chats/42?x=1\<close>.\<close>

theorem target_url_is_concatenation_witness:
  "map url (calls (proxyToBackend (runtime_example backend_overloaded)
      (request_example ''GET'' ''/chats/42?x=1'') fresh_res)) = [''http://b:9/chats/42?x=1'']"
  using target_url_is_concatenation [of "runtime_example backend_overloaded"
      "request_example ''GET'' ''/chats/42?x=1''" fresh_res]
  by (simp add: BACKEND_URL_def runtime_example_def request_example_def)

text \<open>
  C8, as the code has it. The fetch call of the generic forwarder carries the header
  \<open>Content-Type: application/json\<close> for every method, also when it carries no body; a
  method outside POST, PUT, PATCH and DELETE sends no body.
\<close>

theorem outbound_header_on_every_request:
  "map fetch_headers (calls (proxyToBackend rt req r))
     = [[(''Content-Type'', ''application/json'')]]
   \<and> (req_method req \<notin> {''POST'', ''PUT'', ''PATCH'', ''DELETE''} \<longrightarrow>
        map fetch_body (calls (proxyToBackend rt req r)) = [None])"
  by (simp add: calls_proxyToBackend outbound_def METHODS_WITH_BODY_def)

theorem outbound_header_on_every_request_witness:
  "map fetch_headers (calls (proxyToBackend (runtime_example backend_overloaded)
      (request_example ''HEAD'' ''/stats'') fresh_res))
     = [[(''Content-Type'', ''application/json'')]]
   \<and> map fetch_body (calls (proxyToBackend (runtime_example backend_overloaded)
      (request_example ''HEAD'' ''/stats'') fresh_res)) = [None]"
  using outbound_header_on_every_request [of "runtime_example backend_overloaded"
      "request_example ''HEAD'' ''/stats''" fresh_res]
  by (simp add: request_example_def)

text \<open>
  C8, as stated, says that a request without a body carries no such header. A \<open>GET\<close>
  of \<open>/stats\<close> is fetched without a body and with the header.
\<close>

theorem outbound_header_without_body_counterexample:
  "req_method (request_example ''GET'' ''/stats'') \<notin> {''POST'', ''PUT'', ''PATCH'', ''DELETE''}
   \<and> calls (proxyToBackend (runtime_example backend_overloaded)
        (request_example ''GET'' ''/stats'') fresh_res) =
      [\<lparr>url = ''http://b:9/stats'', fetch_method = ''GET'',
        fetch_headers = [(''Content-Type'', ''application/json'')], fetch_body = None\<rparr>]"
  by (simp add: calls_proxyToBackend outbound_def request_example_def runtime_example_def
      BACKEND_URL_def METHODS_WITH_BODY_def)

text \<open>
  C10. Two inbound requests with the same method, the same original URL and the same
  parsed body make the generic forwarder issue the same fetch call, whatever their
  headers are; the headers of that call are the one pair \<open>Content-Type:
  application/json\<close>, so no inbound header (Authorization, Cookie, Accept or any other)
  is passed on.
\<close>

theorem inbound_headers_not_forwarded:
  assumes "req_method req1 = req_method req2" and "originalUrl req1 = originalUrl req2"
    and "req_body req1 = req_body req2"
  shows "calls (proxyToBackend rt req1 r1) = calls (proxyToBackend rt req2 r2)
    \<and> map fetch_headers (calls (proxyToBackend rt req1 r1))
        = [[(''Content-Type'', ''application/json'')]]"
  using assms by (simp add: calls_proxyToBackend outbound_def)

theorem inbound_headers_not_forwarded_witness:
  "calls (proxyToBackend (runtime_example backend_overloaded)
      ((request_example ''POST'' ''/chat'')
         \<lparr>req_headers := [(''authorization'', ''Bearer s3cret''), (''cookie'', ''sid=1''),
            (''accept'', ''text/html'')]\<rparr>) fresh_res)
   = calls (proxyToBackend (runtime_example backend_overloaded)
      (request_example ''POST'' ''/chat'') fresh_res)
   \<and> map fetch_headers (calls (proxyToBackend (runtime_example backend_overloaded)
      ((request_example ''POST'' ''/chat'')
         \<lparr>req_headers := [(''authorization'', ''Bearer s3cret''), (''cookie'', ''sid=1''),
            (''accept'', ''text/html'')]\<rparr>) fresh_res))
     = [[(''Content-Type'', ''application/json'')]]"
  by (rule inbound_headers_not_forwarded) (simp_all add: request_example_def)

section \<open>Properties of the older handlers\<close>

lemma res_legacy: "res (legacy rt call line msg fresh_res) = legacy_answer rt call msg"
  by (simp add: legacy_def response_json_def res_defs Let_def split: sum.splits)

text \<open>
  C7. Each of the four older handlers, run on a fresh \<open>res\<close>, parses the body of the
  backend's response as JSON without looking at its content type and answers with the
  parsed value serialised again, under status 200 whatever the backend's status was; when
  the fetch, the reading of the body or the parsing throws, it answers 500 with its own
  message: \<open>Failed to fetch chats\<close>, \<open>Failed to fetch chat\<close>, \<open>Failed to delete
  chat\<close>, \<open>Failed to clear chats\<close>.
\<close>

theorem legacy_handlers_parse_and_reemit:
  "res (get_chats rt req fresh_res) =
     legacy_answer rt (bare_fetch ''GET'' (BACKEND_URL rt @ ''/chats'')) ''Failed to fetch chats''
   \<and> res (get_chat rt req fresh_res) =
     legacy_answer rt (bare_fetch ''GET'' (BACKEND_URL rt @ ''/chats/'' @ params_id req))
       ''Failed to fetch chat''
   \<and> res (delete_chat rt req fresh_res) =
     legacy_answer rt (bare_fetch ''DELETE'' (BACKEND_URL rt @ ''/chats/'' @ params_id req))
       ''Failed to delete chat''
   \<and> res (clear_chats rt req fresh_res) =
     legacy_answer rt (bare_fetch ''DELETE'' (BACKEND_URL rt @ ''/chats''))
       ''Failed to clear chats''"
  by (simp only: get_chats_def get_chat_def delete_chat_def clear_chats_def res_legacy)

text \<open>A backend's 404 with a JSON body comes back as 200; an HTML body and a refused
  connection come back as 500 with the handler's message.\<close>

theorem legacy_handlers_parse_and_reemit_witness:
  \<open>res (get_chats (runtime_example backend_not_found) (request_example ''GET'' ''/chats'')
      fresh_res) =
     \<lparr>statusCode = 200, headers = [(''Content-Type'', ''application/json'')],
      body = Some ''{"detail":"Chat not found"}''\<rparr>
   \<and> res (get_chats (runtime_example backend_html) (request_example ''GET'' ''/chats'')
      fresh_res) =
     \<lparr>statusCode = 500, headers = [(''Content-Type'', ''application/json'')],
      body = Some ''{"error":"Failed to fetch chats"}''\<rparr>
   \<and> res (clear_chats (runtime_example backend_down) (request_example ''DELETE'' ''/chats'')
      fresh_res) =
     \<lparr>statusCode = 500, headers = [(''Content-Type'', ''application/json'')],
      body = Some ''{"error":"Failed to clear chats"}''\<rparr>\<close>
  using legacy_handlers_parse_and_reemit [of "runtime_example backend_not_found"
      "request_example ''GET'' ''/chats''"]
    legacy_handlers_parse_and_reemit [of "runtime_example backend_html"
      "request_example ''GET'' ''/chats''"]
    legacy_handlers_parse_and_reemit [of "runtime_example backend_down"
      "request_example ''DELETE'' ''/chats''"]
  by (simp add: runtime_example_def backend_not_found_def backend_html_def backend_down_def
      parse_example_def quoted_def)

section \<open>Properties of the routing\<close>

lemma dispatch_without_legacy: "dispatch routes_without_legacy req = dispatch routes req"
  by (simp add: routes_def routes_without_legacy_def split: option.splits)

lemma dispatch_never_legacy: "dispatch routes req = Some (h, ps) \<Longrightarrow> \<not> is_legacy h"
  by (auto simp: routes_def split: option.splits if_splits)

text \<open>
  C6. With the routes tried in the order of the source, a \<open>GET\<close> or \<open>DELETE\<close> request
  whose path matches \<open>/chats\<close> or \<open>/chats/:id\<close> goes to the generic forwarder; no
  request at all goes to one of the four older handlers; and the application answers
  every request as the application without the four older registrations does.
\<close>

theorem legacy_routes_shadowed:
  "(req_method req \<in> {''GET'', ''DELETE''}
      \<and> (path_match ''/chats'' (path_of (originalUrl req)) \<noteq> None
         \<or> path_match ''/chats/:id'' (path_of (originalUrl req)) \<noteq> None) \<longrightarrow>
      (\<exists>ps. dispatch routes req = Some (H_proxyToBackend, ps)))
   \<and> (\<forall>h ps. dispatch routes req = Some (h, ps) \<longrightarrow> \<not> is_legacy h)
   \<and> app rt req = app_with routes_without_legacy rt req"
proof (intro conjI impI allI)
  assume "req_method req \<in> {''GET'', ''DELETE''}
      \<and> (path_match ''/chats'' (path_of (originalUrl req)) \<noteq> None
         \<or> path_match ''/chats/:id'' (path_of (originalUrl req)) \<noteq> None)"
  then show "\<exists>ps. dispatch routes req = Some (H_proxyToBackend, ps)"
    by (auto simp: routes_def split: option.splits)
next
  fix h ps
  assume "dispatch routes req = Some (h, ps)"
  then show "\<not> is_legacy h" by (rule dispatch_never_legacy)
next
  show "app rt req = app_with routes_without_legacy rt req"
    by (simp add: app_def app_with_def dispatch_without_legacy)
qed

theorem legacy_routes_shadowed_witness:
  "path_match ''/chats/:id'' (path_of (originalUrl (request_example ''DELETE'' ''/chats/42'')))
     = Some [(''id'', ''42'')]
   \<and> (\<exists>ps. dispatch routes (request_example ''DELETE'' ''/chats/42'')
         = Some (H_proxyToBackend, ps))
   \<and> app (runtime_example backend_not_found) (request_example ''DELETE'' ''/chats/42'')
       = app_with routes_without_legacy (runtime_example backend_not_found)
           (request_example ''DELETE'' ''/chats/42'')"
proof -
  let ?req = "request_example ''DELETE'' ''/chats/42''"
  have m: "req_method ?req \<in> {''GET'', ''DELETE''}"
    by (simp add: request_example_def)
  have p: "path_match ''/chats/:id'' (path_of (originalUrl ?req)) = Some [(''id'', ''42'')]"
    by (simp add: request_example_def path_match_def path_of_def strip_slash_def)
  from p have p': "path_match ''/chats/:id'' (path_of (originalUrl ?req)) \<noteq> None"
    by simp
  note shadowed = legacy_routes_shadowed [of ?req "runtime_example backend_not_found"]
  from shadowed m p' have "\<exists>ps. dispatch routes ?req = Some (H_proxyToBackend, ps)"
    by blast
  moreover from shadowed
  have "app (runtime_example backend_not_found) ?req
      = app_with routes_without_legacy (runtime_example backend_not_found) ?req"
    by blast
  ultimately show ?thesis using p by blast
qed

lemma match_one_literal:
  assumes "match_segments [[], c # lit] xs = Some ps" and "c \<noteq> CHR '':''"
  shows "\<exists>x. xs = [[], x] \<and> map lower_ascii (c # lit) = map lower_ascii x"
proof (cases xs)
  case Nil
  with assms show ?thesis by simp
next
  case (Cons x0 xs1)
  show ?thesis
  proof (cases xs1)
    case Nil
    with Cons assms show ?thesis by (simp split: if_splits)
  next
    case (Cons x xs2)
    with \<open>xs = x0 # xs1\<close> assms show ?thesis
      by (cases xs2) (simp_all split: if_splits)
  qed
qed

text \<open>A path that the pattern \<open>/health\<close> matches is matched by none of the patterns
  registered before it.\<close>

lemma health_excludes:
  assumes "path_match ''/health'' p \<noteq> None"
  shows "path_match ''/chats'' p = None" and "path_match ''/chats/:id'' p = None"
    and "path_match ''/stats'' p = None" and "path_match ''/health'' p = Some []"
proof -
  from assms obtain x where x: "split_slash (strip_slash p) = [[], x]"
      "map lower_ascii ''health'' = map lower_ascii x"
    using match_one_literal [of "CHR ''h''" "''ealth''" "split_slash (strip_slash p)"]
    by (auto simp: path_match_def)
  from x(2) have "map lower_ascii x = ''health''" by (simp add: lower_ascii_def)
  with x(1) show "path_match ''/chats'' p = None" and "path_match ''/chats/:id'' p = None"
    and "path_match ''/stats'' p = None" and "path_match ''/health'' p = Some []"
    by (simp_all add: path_match_def lower_ascii_def)
qed

lemma dispatch_health:
  assumes "req_method req = ''GET''"
    and "path_match ''/health'' (path_of (originalUrl req)) \<noteq> None"
  shows "dispatch routes req = Some (H_health, [])"
  using assms(1) health_excludes [OF assms(2)] by (simp add: routes_def)

text \<open>
  C9. Every \<open>GET\<close> request whose path the pattern \<open>/health\<close> matches is answered with
  status 200 and the serialisation of \<open>{status: "ok"}\<close>; no fetch call is made and
  nothing is logged, and the answer is the same whatever the backend would do.
\<close>

theorem health_is_unconditional:
  assumes "req_method req = ''GET''"
    and "path_match ''/health'' (path_of (originalUrl req)) \<noteq> None"
  shows "app rt req =
      Some \<lparr>calls = [], logged = [],
            res = json_reply rt 200 (JObject [(''status'', JString ''ok'')])\<rparr>
    \<and> app (rt\<lparr>fetch := backend\<rparr>) req = app rt req"
  using dispatch_health [OF assms]
  by (simp add: app_def app_with_def health_def res_defs)

theorem health_is_unconditional_witness:
  \<open>app (runtime_example backend_down) (request_example ''GET'' ''/health'') =
     Some \<lparr>calls = [], logged = [],
           res = \<lparr>statusCode = 200, headers = [(''Content-Type'', ''application/json'')],
                  body = Some ''{"status":"ok"}''\<rparr>\<rparr>\<close>
proof -
  let ?req = "request_example ''GET'' ''/health''"
  have m: "req_method ?req = ''GET''" by (simp add: request_example_def)
  have p: "path_match ''/health'' (path_of (originalUrl ?req)) \<noteq> None"
    by (simp add: request_example_def path_match_def path_of_def strip_slash_def
        lower_ascii_def)
  from health_is_unconditional [OF m p, of "runtime_example backend_down"]
  show ?thesis by (simp add: runtime_example_def quoted_def)
qed

end
